theory Spec2Isabelle
  imports Complex_Main "HOL-Library.Word" "HOL-Library.Multiset"
begin

section \<open>The scalar type of the solver\<close>

text \<open>
  \<open>SymmetricEigensolver\<close> is a class template over the scalar type \<open>Real\<close>. The model is
  polymorphic in the same way: the scalar type is a type variable and every operation
  the source applies to a \<open>Real\<close> is a field of the record below. No law is assumed about
  these operations, so a theorem stated for every \<open>'r arith\<close> covers IEEE arithmetic
  (rounding, infinities, \<open>x != x\<close> for a NaN) as well as exact arithmetic.
\<close>

record 'r arith =
  r_zero :: 'r
  r_one :: 'r
  r_two :: 'r
  r_half :: 'r
  r_mone :: 'r
  r_max :: 'r
  r_add :: "'r \<Rightarrow> 'r \<Rightarrow> 'r"
  r_sub :: "'r \<Rightarrow> 'r \<Rightarrow> 'r"
  r_mul :: "'r \<Rightarrow> 'r \<Rightarrow> 'r"
  r_div :: "'r \<Rightarrow> 'r \<Rightarrow> 'r"
  r_neg :: "'r \<Rightarrow> 'r"
  r_sqrt :: "'r \<Rightarrow> 'r"
  r_fabs :: "'r \<Rightarrow> 'r"
  r_lt :: "'r \<Rightarrow> 'r \<Rightarrow> bool"
  r_gt :: "'r \<Rightarrow> 'r \<Rightarrow> bool"
  r_ge :: "'r \<Rightarrow> 'r \<Rightarrow> bool"
  r_ne :: "'r \<Rightarrow> 'r \<Rightarrow> bool"

text \<open>
  \<open>r_zero\<close>, \<open>r_one\<close>, \<open>r_two\<close>, \<open>r_half\<close> and \<open>r_mone\<close> are the casts \<open>(Real)0\<close>, \<open>(Real)1\<close>,
  \<open>(Real)2\<close>, \<open>(Real)0.5\<close> and \<open>(Real)-1\<close>; \<open>r_max\<close> is \<open>std::numeric_limits<Real>::max()\<close>;
  \<open>r_sqrt\<close> and \<open>r_fabs\<close> are \<open>std::sqrt\<close> and \<open>std::fabs\<close>.
\<close>

text \<open>Exact arithmetic on the reals, the instance in which the concrete runs are evaluated.\<close>

definition exact :: "real arith" where
  "exact = \<lparr> r_zero = 0, r_one = 1, r_two = 2, r_half = 1 / 2, r_mone = - 1, r_max = 1000000,
     r_add = (+), r_sub = (-), r_mul = (*), r_div = (/), r_neg = uminus,
     r_sqrt = sqrt, r_fabs = abs, r_lt = (<), r_gt = (>), r_ge = (\<ge>), r_ne = (\<noteq>) \<rparr>"

section \<open>The solver object\<close>

record 'r GivensRotation =
  index :: nat
  cs :: 'r
  sn :: 'r

record 'r solver =
  mSize :: nat
  mMaxIterations :: "32 word"
  mMatrix :: "'r list"
  mDiagonal :: "'r list"
  mSuperdiagonal :: "'r list"
  mGivens :: "'r GivensRotation list"
  mPermutation :: "int list"
  mVisited :: "int list"
  mEigenvectorMatrixType :: int
  mPVector :: "'r list"
  mVVector :: "'r list"
  mWVector :: "'r list"

text \<open>
  The constructor. The argument \<open>size\<close> (here \<open>sz\<close>) is an \<open>int32_t\<close>; once it has passed the test \<open>size > 1\<close> it is
  kept as a natural number. \<open>std::vector::resize\<close> value-initialises, so every buffer
  starts filled with zeros; \<open>reserve\<close> leaves the rotation log empty.
\<close>

definition SymmetricEigensolver :: "'r arith \<Rightarrow> int \<Rightarrow> 32 word \<Rightarrow> 'r solver" where
  "SymmetricEigensolver ar sz maxIterations =
     (if sz > 1 \<and> maxIterations > 0
      then (let szSize = nat sz in
        \<lparr> mSize = szSize, mMaxIterations = maxIterations,
          mMatrix = replicate (szSize * szSize) (r_zero ar),
          mDiagonal = replicate szSize (r_zero ar),
          mSuperdiagonal = replicate (szSize - 1) (r_zero ar),
          mGivens = [],
          mPermutation = replicate szSize 0,
          mVisited = replicate szSize 0,
          mEigenvectorMatrixType = - 1,
          mPVector = replicate szSize (r_zero ar),
          mVVector = replicate szSize (r_zero ar),
          mWVector = replicate szSize (r_zero ar) \<rparr>)
      else
        \<lparr> mSize = 0, mMaxIterations = 0, mMatrix = [], mDiagonal = [], mSuperdiagonal = [],
          mGivens = [], mPermutation = [], mVisited = [], mEigenvectorMatrixType = - 1,
          mPVector = [], mVVector = [], mWVector = [] \<rparr>)"

section \<open>Tridiagonalisation by Householder reflections\<close>

text \<open>
  The matrix is stored row-major in a flat array, and the source addresses it as
  \<open>mMatrix[col + mSize * row]\<close>; the model keeps the flat list and the same index
  expressions. Each \<open>for\<close> loop is a \<open>fold\<close> over the list of the indices it visits.
\<close>

definition hh_read :: "'r arith \<Rightarrow> nat \<Rightarrow> nat \<Rightarrow> 'r list \<Rightarrow> 'r list \<Rightarrow> 'r list \<times> 'r" where
  "hh_read ar n i M V =
     fold (\<lambda>r (V, len). let vr = M ! (r + n * i)
                         in (V[r := vr], r_add ar len (r_mul ar vr vr)))
       [i + 1..<n]
       (fold (\<lambda>r V. V[r := r_zero ar]) [0..<i + 1] V, r_zero ar)"

definition hh_normalize :: "'r arith \<Rightarrow> nat \<Rightarrow> nat \<Rightarrow> 'r \<Rightarrow> 'r list \<Rightarrow> 'r list \<times> 'r" where
  "hh_normalize ar n i len V =
     (if r_gt ar len (r_zero ar)
      then (let v1 = V ! (i + 1);
                sgn = (if r_ge ar v1 (r_zero ar) then r_one ar else r_mone ar);
                invDenom = r_div ar (r_one ar) (r_add ar v1 (r_mul ar sgn len))
            in fold (\<lambda>r (V, vdv). let vr = r_mul ar (V ! r) invDenom
                                   in (V[r := vr], r_add ar vdv (r_mul ar vr vr)))
                 [i + 2..<n] (V[i + 1 := r_one ar], r_one ar))
      else (V, r_one ar))"

definition hh_pvector ::
  "'r arith \<Rightarrow> nat \<Rightarrow> nat \<Rightarrow> 'r \<Rightarrow> 'r list \<Rightarrow> 'r list \<Rightarrow> 'r list \<Rightarrow> 'r list \<times> 'r" where
  "hh_pvector ar n i twoinvvdv M V P =
     fold (\<lambda>r (P, pdvtvdv).
         let P1 = P[r := r_zero ar];
             P2 = fold (\<lambda>c P. P[r := r_add ar (P ! r) (r_mul ar (M ! (r + n * c)) (V ! c))])
                    [i..<r] P1;
             P3 = fold (\<lambda>c P. P[r := r_add ar (P ! r) (r_mul ar (M ! (c + n * r)) (V ! c))])
                    [r..<n] P2;
             P4 = P3[r := r_mul ar (P3 ! r) twoinvvdv]
         in (P4, r_add ar pdvtvdv (r_mul ar (P4 ! r) (V ! r))))
       [i..<n] (P, r_zero ar)"

definition hh_update :: "'r arith \<Rightarrow> nat \<Rightarrow> nat \<Rightarrow> 'r list \<Rightarrow> 'r list \<Rightarrow> 'r list \<Rightarrow> 'r list" where
  "hh_update ar n i V W M =
     fold (\<lambda>r M.
         let vr = V ! r; wr = W ! r;
             offset = r_mul ar (r_mul ar vr wr) (r_two ar);
             M1 = M[r + n * r := r_sub ar (M ! (r + n * r)) offset]
         in fold (\<lambda>c M. let offset = r_add ar (r_mul ar vr (W ! c)) (r_mul ar wr (V ! c))
                         in M[c + n * r := r_sub ar (M ! (c + n * r)) offset])
              [r + 1..<n] M1)
       [i..<n] M"

definition hh_step :: "'r arith \<Rightarrow> nat \<Rightarrow> 'r solver \<Rightarrow> 'r solver" where
  "hh_step ar i s =
     (let n = mSize s;
          (V0, len) = hh_read ar n i (mMatrix s) (mVVector s);
          (V, vdv) = hh_normalize ar n i (r_sqrt ar len) V0;
          invvdv = r_div ar (r_one ar) vdv;
          twoinvvdv = r_mul ar invvdv (r_two ar);
          (P, pdvtvdv0) = hh_pvector ar n i twoinvvdv (mMatrix s) V (mPVector s);
          pdvtvdv = r_mul ar pdvtvdv0 invvdv;
          W = fold (\<lambda>r W. W[r := r_sub ar (P ! r) (r_mul ar pdvtvdv (V ! r))]) [i..<n] (mWVector s);
          M1 = hh_update ar n i V W (mMatrix s);
          M2 = M1[i + n * (i + 1) := twoinvvdv];
          M3 = fold (\<lambda>r M. M[i + n * r := V ! r]) [i + 2..<n] M2
      in s\<lparr> mMatrix := M3, mVVector := V, mPVector := P, mWVector := W \<rparr>)"

definition Tridiagonalize :: "'r arith \<Rightarrow> 'r solver \<Rightarrow> 'r solver" where
  "Tridiagonalize ar s =
     (let n = mSize s;
          s1 = fold (hh_step ar) [0..<n - 2] s;
          M = mMatrix s1;
          (D, S) = fold (\<lambda>k (D, S). (D[k := M ! (k * (n + 1))], S[k := M ! (k * (n + 1) + 1)]))
                     [0..<n - 1] (mDiagonal s1, mSuperdiagonal s1)
      in s1\<lparr> mDiagonal := D[n - 1 := M ! ((n - 1) * (n + 1))], mSuperdiagonal := S \<rparr>)"

section \<open>The implicit-shift QR step\<close>

definition GetSinCos :: "'r arith \<Rightarrow> 'r \<Rightarrow> 'r \<Rightarrow> 'r \<times> 'r" where
  "GetSinCos ar x y =
     (if r_ne ar y (r_zero ar)
      then (if r_gt ar (r_fabs ar y) (r_fabs ar x)
            then (let tau = r_div ar (r_neg ar x) y;
                      sn = r_div ar (r_one ar) (r_sqrt ar (r_add ar (r_one ar) (r_mul ar tau tau)));
                      cs = r_mul ar sn tau
                  in (cs, sn))
            else (let tau = r_div ar (r_neg ar y) x;
                      cs = r_div ar (r_one ar) (r_sqrt ar (r_add ar (r_one ar) (r_mul ar tau tau)));
                      sn = r_mul ar cs tau
                  in (cs, sn)))
      else (r_one ar, r_zero ar))"

text \<open>
  One pass of the loop of \<open>DoQRImplicitShift\<close>, for the index \<open>i1\<close> (with \<open>i0 = i1 - 1\<close> and
  \<open>i2 = i1 + 1\<close>). The loop state is \<open>(x, y, a02, mDiagonal, mSuperdiagonal, mGivens)\<close>.
\<close>

definition qr_step ::
  "'r arith \<Rightarrow> nat \<Rightarrow> nat \<Rightarrow> nat \<Rightarrow>
   'r \<times> 'r \<times> 'r \<times> 'r list \<times> 'r list \<times> 'r GivensRotation list \<Rightarrow>
   'r \<times> 'r \<times> 'r \<times> 'r list \<times> 'r list \<times> 'r GivensRotation list" where
  "qr_step ar imin imax i1 = (\<lambda>(x, y, a02, D, S, G).
     let (c, s) = GetSinCos ar x y;
         G1 = G @ [\<lparr> index = i1, cs = c, sn = s \<rparr>];
         S1 = (if i1 > imin
               then S[i1 - 1 := r_sub ar (r_mul ar c (S ! (i1 - 1))) (r_mul ar s a02)]
               else S);
         a11 = D ! i1;
         a12 = S1 ! i1;
         a22 = D ! (i1 + 1);
         tmp11 = r_sub ar (r_mul ar c a11) (r_mul ar s a12);
         tmp12 = r_sub ar (r_mul ar c a12) (r_mul ar s a22);
         tmp21 = r_add ar (r_mul ar s a11) (r_mul ar c a12);
         tmp22 = r_add ar (r_mul ar s a12) (r_mul ar c a22);
         D1 = D[i1 := r_sub ar (r_mul ar c tmp11) (r_mul ar s tmp12)];
         S2 = S1[i1 := r_add ar (r_mul ar s tmp11) (r_mul ar c tmp12)];
         D2 = D1[i1 + 1 := r_add ar (r_mul ar s tmp21) (r_mul ar c tmp22)]
     in (if i1 < imax
         then (let a23 = S2 ! (i1 + 1);
                   a02' = r_mul ar (r_neg ar s) a23;
                   S3 = S2[i1 + 1 := r_mul ar c a23]
               in (S3 ! i1, a02', a02', D2, S3, G1))
         else (x, y, a02, D2, S2, G1)))"

definition DoQRImplicitShift :: "'r arith \<Rightarrow> nat \<Rightarrow> nat \<Rightarrow> 'r solver \<Rightarrow> 'r solver" where
  "DoQRImplicitShift ar imin imax s =
     (let D = mDiagonal s; S = mSuperdiagonal s;
          a00 = D ! imax;
          a01 = S ! imax;
          a11 = D ! (imax + 1);
          dif = r_mul ar (r_sub ar a00 a11) (r_half ar);
          sgn = (if r_ge ar dif (r_zero ar) then r_one ar else r_mone ar);
          a01sqr = r_mul ar a01 a01;
          u = r_sub ar a11 (r_div ar a01sqr
                (r_add ar dif (r_mul ar sgn (r_sqrt ar (r_add ar (r_mul ar dif dif) a01sqr)))));
          x = r_sub ar (D ! imin) u;
          y = S ! imin;
          (x', y', a02', D', S', G') =
             fold (qr_step ar imin imax) [imin..<imax + 1] (x, y, r_zero ar, D, S, mGivens s)
      in s\<lparr> mDiagonal := D', mSuperdiagonal := S', mGivens := G' \<rparr>)"

section \<open>Sorting and the permutation\<close>

record 'r SortItem =
  eigenvalue :: 'r
  item_index :: int

text \<open>
  \<open>std::sort\<close> belongs to the C++ standard library, not to this repository, so the
  sorting function is a parameter \<open>srt\<close> of the model: it takes the comparator and the
  items. What the standard promises of it is \<open>std_sort_contract\<close>: the result is a
  rearrangement of the items in which no later item compares less than an earlier one.
  The standard does not promise stability.
\<close>

type_synonym 'r sorter =
  "('r SortItem \<Rightarrow> 'r SortItem \<Rightarrow> bool) \<Rightarrow> 'r SortItem list \<Rightarrow> 'r SortItem list"

definition ComputePermutation :: "'r arith \<Rightarrow> 'r sorter \<Rightarrow> int \<Rightarrow> 'r solver \<Rightarrow> 'r solver" where
  "ComputePermutation ar srt sortType s =
     (let s1 = s\<lparr> mEigenvectorMatrixType := 1 - int (mSize s mod 2) \<rparr>
      in if sortType = 0
         then s1\<lparr> mPermutation := (mPermutation s1)[0 := - 1] \<rparr>
         else (let items = map (\<lambda>i. \<lparr> eigenvalue = mDiagonal s1 ! i, item_index = int i \<rparr>)
                             [0..<mSize s1];
                   sorted_items =
                     (if sortType > 0
                      then srt (\<lambda>item0 item1. r_lt ar (eigenvalue item0) (eigenvalue item1)) items
                      else srt (\<lambda>item0 item1. r_gt ar (eigenvalue item0) (eigenvalue item1)) items)
               in s1\<lparr> mPermutation :=
                      fold (\<lambda>(i, item) P. P[i := item_index item])
                        (zip [0..<length sorted_items] sorted_items) (mPermutation s1) \<rparr>))"

section \<open>Solve\<close>

datatype fault = NullPointer | OutOfRange

text \<open>
  The scan of one outer iteration, from \<open>i = mSize - 2\<close> down to \<open>0\<close>: the list argument holds
  the indices still to visit, the pair is \<open>(imin, imax)\<close>, both \<open>-1\<close> at the start. Leaving
  the recursion early is the \<open>break\<close>.
\<close>

definition deflated :: "'r arith \<Rightarrow> 'r list \<Rightarrow> 'r list \<Rightarrow> nat \<Rightarrow> bool" where
  "deflated ar D S i =
     (let a00 = D ! i; a01 = S ! i; a11 = D ! (i + 1);
          sum = r_add ar (r_fabs ar a00) (r_fabs ar a11)
      in \<not> r_ne ar (r_add ar sum (r_fabs ar a01)) sum)"

fun find_block :: "'r arith \<Rightarrow> 'r list \<Rightarrow> 'r list \<Rightarrow> nat list \<Rightarrow> int \<times> int \<Rightarrow> int \<times> int" where
  "find_block ar D S [] (imin, imax) = (imin, imax)"
| "find_block ar D S (i # rest) (imin, imax) =
     (if \<not> deflated ar D S i
      then find_block ar D S rest (int i, if imax = - 1 then int i else imax)
      else if imin \<ge> 0 then (imin, imax)
      else find_block ar D S rest (imin, imax))"

function QR_loop ::
  "'r arith \<Rightarrow> 'r sorter \<Rightarrow> int \<Rightarrow> 32 word \<Rightarrow> 32 word \<Rightarrow> 'r solver \<Rightarrow> 32 word \<times> 'r solver" where
  "QR_loop ar srt sortType maxIt j s =
     (if j < maxIt
      then (let (imin, imax) =
                   find_block ar (mDiagonal s) (mSuperdiagonal s) (rev [0..<mSize s - 1]) (- 1, - 1)
            in if imax = - 1
               then (j, ComputePermutation ar srt sortType s)
               else QR_loop ar srt sortType maxIt (j + 1)
                      (DoQRImplicitShift ar (nat imin) (nat imax) s))
      else (0xFFFFFFFF, s))"
  by pat_completeness auto

termination
proof (relation "measure (\<lambda>(ar, srt, sortType, maxIt, j, s). unat maxIt - unat j)")
  show "wf (measure (\<lambda>(ar, srt, sortType, maxIt, j, s). unat maxIt - unat j))"
    by simp
next
  fix ar :: "'r arith" and srt :: "'r sorter" and sortType :: int
    and maxIt j :: "32 word" and s :: "'r solver" and x :: "int \<times> int" and xa y :: int
  assume lt: "j < maxIt"
  have "j + 1 \<noteq> 0"
  proof
    assume "j + 1 = 0"
    then have "j = - 1" by (simp add: eq_neg_iff_add_eq_0)
    with lt show False by simp
  qed
  then have "unat (j + 1) = Suc (unat j)"
    by (simp add: unatSuc add.commute)
  moreover from lt have "unat j < unat maxIt"
    by (simp add: word_less_nat_alt)
  ultimately show
    "((ar, srt, sortType, maxIt, j + 1, DoQRImplicitShift ar (nat xa) (nat y) s),
      (ar, srt, sortType, maxIt, j, s))
     \<in> measure (\<lambda>(ar, srt, sortType, maxIt, j, s). unat maxIt - unat j)"
    by simp
qed

text \<open>
  \<open>Solve\<close>. The input pointer is modelled by the array it points to; \<open>std::copy\<close> reads
  \<open>mSize * mSize\<close> elements of it, so a shorter array is read out of range.
\<close>

definition Solve ::
  "'r arith \<Rightarrow> 'r sorter \<Rightarrow> 'r solver \<Rightarrow> 'r list \<Rightarrow> int \<Rightarrow> fault + (32 word \<times> 'r solver)" where
  "Solve ar srt s input sortType =
     (let s0 = s\<lparr> mEigenvectorMatrixType := - 1 \<rparr>
      in if mSize s0 > 0
         then (if length input < mSize s0 * mSize s0 then Inl OutOfRange
               else (let s1 = s0\<lparr> mMatrix := take (mSize s0 * mSize s0) input
                                               @ drop (mSize s0 * mSize s0) (mMatrix s0) \<rparr>;
                         s2 = Tridiagonalize ar s1;
                         s3 = s2\<lparr> mGivens := [] \<rparr>
                     in Inr (QR_loop ar srt sortType (mMaxIterations s3) 0 s3)))
         else Inr (0, s0))"

section \<open>The getters\<close>

text \<open>
  An output pointer is \<open>None\<close> when it is null and \<open>Some\<close> of the array it points to
  otherwise. A getter returns the new contents of the caller's array, together with the
  solver when it writes to one of the solver's \<open>mutable\<close> members. A write or read outside
  an array, or through a null pointer, is undefined behaviour in the source; the model
  makes it the value \<open>Inl\<close> of a fault.
\<close>

definition read_at :: "'a list \<Rightarrow> int \<Rightarrow> fault + 'a" where
  "read_at xs i = (if 0 \<le> i \<and> i < int (length xs) then Inr (xs ! nat i) else Inl OutOfRange)"

definition GetEigenvalues :: "'r solver \<Rightarrow> 'r list option \<Rightarrow> fault + 'r list option" where
  "GetEigenvalues s eigenvalues =
     (case eigenvalues of
        None \<Rightarrow> Inr None
      | Some out \<Rightarrow>
          if mSize s > 0
          then (if length out < mSize s then Inl OutOfRange
                else if mPermutation s ! 0 \<ge> 0
                then Inr (Some (fold (\<lambda>i out. out[i := mDiagonal s ! nat (mPermutation s ! i)])
                                  [0..<mSize s] out))
                else Inr (Some (take (mSize s) (mDiagonal s) @ drop (mSize s) out)))
          else Inr (Some out))"

definition GetEigenvalue :: "'r arith \<Rightarrow> 'r solver \<Rightarrow> int \<Rightarrow> fault + 'r" where
  "GetEigenvalue ar s c =
     (if mSize s > 0
      then (if mPermutation s ! 0 \<ge> 0
            then (case read_at (mPermutation s) c of
                    Inl e \<Rightarrow> Inl e
                  | Inr p \<Rightarrow> read_at (mDiagonal s) p)
            else read_at (mDiagonal s) c)
      else Inr (r_max ar))"

definition GetEigenvectorMatrixType :: "'r solver \<Rightarrow> int" where
  "GetEigenvectorMatrixType s = mEigenvectorMatrixType s"

subsection \<open>One eigenvector\<close>

text \<open>
  One reflection of \<open>GetEigenvector\<close>: \<open>y = H x\<close>, after which the source swaps the two
  pointers; the result is the pair \<open>(x, y)\<close> after the swap.
\<close>

definition reflect :: "'r arith \<Rightarrow> nat \<Rightarrow> 'r list \<Rightarrow> nat \<Rightarrow> 'r list \<times> 'r list \<Rightarrow> 'r list \<times> 'r list" where
  "reflect ar n M i = (\<lambda>(x, y).
     let twoinvvdv = M ! (i + n * (i + 1));
         y1 = fold (\<lambda>r y. y[r := x ! r]) [0..<i + 1] y;
         r = i + 1;
         s0 = x ! r;
         s1 = fold (\<lambda>j s. r_add ar s (r_mul ar (x ! j) (M ! (i + n * j)))) [r + 1..<n] s0;
         s2 = r_mul ar s1 twoinvvdv;
         y2 = y1[r := r_sub ar (x ! r) s2];
         y3 = fold (\<lambda>r y. y[r := r_sub ar (x ! r) (r_mul ar s2 (M ! (i + n * r)))]) [r + 1..<n] y2
     in (y3, x))"

definition unrotate :: "'r arith \<Rightarrow> 'r GivensRotation \<Rightarrow> 'r list \<Rightarrow> 'r list" where
  "unrotate ar givens x =
     (let xr = x ! index givens;
          xrp1 = x ! (index givens + 1);
          tmp0 = r_add ar (r_mul ar (cs givens) xr) (r_mul ar (sn givens) xrp1);
          tmp1 = r_add ar (r_mul ar (r_neg ar (sn givens)) xr) (r_mul ar (cs givens) xrp1)
      in x[index givens := tmp0, index givens + 1 := tmp1])"

text \<open>
  \<open>x\<close> starts as the caller's array and \<open>y\<close> as \<open>mPVector\<close>, and the two are swapped once per
  reflection, \<open>mSize - 2\<close> times. When that number is even \<open>x\<close> is the caller's array at
  the end; when it is odd \<open>x\<close> is \<open>mPVector\<close>, and \<open>memcpy\<close> copies it to the caller.
\<close>

definition GetEigenvector ::
  "'r arith \<Rightarrow> 'r solver \<Rightarrow> int \<Rightarrow> 'r list option \<Rightarrow> fault + ('r solver \<times> 'r list option)" where
  "GetEigenvector ar s c eigenvector =
     (if 0 \<le> c \<and> c < int (mSize s)
      then (case eigenvector of
              None \<Rightarrow> Inl NullPointer
            | Some out \<Rightarrow>
                if length out < mSize s then Inl OutOfRange
                else (let n = mSize s;
                          x0 = replicate n (r_zero ar) @ drop n out;
                          x1 = (if mPermutation s ! 0 \<ge> 0
                                then x0[nat (mPermutation s ! nat c) := r_one ar]
                                else x0[nat c := r_one ar]);
                          x2 = fold (unrotate ar) (rev (mGivens s)) x1;
                          (x3, y3) = fold (reflect ar n (mMatrix s)) (rev [0..<n - 2]) (x2, mPVector s)
                      in if even (n - 2)
                         then Inr (s\<lparr> mPVector := y3 \<rparr>, Some x3)
                         else Inr (s\<lparr> mPVector := x3 \<rparr>, Some (take n x3 @ drop n y3))))
      else Inr (s, eigenvector))"

subsection \<open>All eigenvectors\<close>

text \<open>
  One reflection of the backward accumulation, in the three steps of the source: copy the
  vector \<open>v\<close> out of the matrix, compute \<open>w\<close>, update \<open>Q <- Q - v w\<^sup>T\<close>.
\<close>

definition acc_vvector :: "'r arith \<Rightarrow> nat \<Rightarrow> 'r list \<Rightarrow> nat \<Rightarrow> 'r list \<Rightarrow> 'r list" where
  "acc_vvector ar n M i V =
     (let V1 = fold (\<lambda>r V. V[r := r_zero ar]) [0..<i + 1] V;
          V2 = V1[i + 1 := r_one ar]
      in fold (\<lambda>r V. V[r := M ! (i + n * r)]) [i + 2..<n] V2)"

definition acc_wvector ::
  "'r arith \<Rightarrow> nat \<Rightarrow> nat \<Rightarrow> 'r \<Rightarrow> 'r list \<Rightarrow> 'r list \<Rightarrow> 'r list \<Rightarrow> 'r list" where
  "acc_wvector ar n rmin twoinvvdv V ev W =
     fold (\<lambda>r W.
         let Wa = W[r := r_zero ar];
             Wb = fold (\<lambda>c W. W[r := r_add ar (W ! r) (r_mul ar (V ! c) (ev ! (r + n * c)))])
                    [rmin..<n] Wa
         in Wb[r := r_mul ar (Wb ! r) twoinvvdv])
       [0..<n] W"

definition acc_update :: "'r arith \<Rightarrow> nat \<Rightarrow> nat \<Rightarrow> 'r list \<Rightarrow> 'r list \<Rightarrow> 'r list \<Rightarrow> 'r list" where
  "acc_update ar n rmin V W ev =
     fold (\<lambda>r ev.
         fold (\<lambda>c ev. ev[c + n * r := r_sub ar (ev ! (c + n * r)) (r_mul ar (V ! r) (W ! c))])
           [0..<n] ev)
       [rmin..<n] ev"

definition accumulate :: "'r arith \<Rightarrow> nat \<Rightarrow> 'r list \<Rightarrow> nat \<Rightarrow>
    'r list \<times> 'r list \<times> 'r list \<Rightarrow> 'r list \<times> 'r list \<times> 'r list" where
  "accumulate ar n M i = (\<lambda>(ev, V, W).
     let rmin = i + 1;
         twoinvvdv = M ! (i + n * (i + 1));
         V3 = acc_vvector ar n M i V;
         W1 = acc_wvector ar n rmin twoinvvdv V3 ev W;
         ev1 = acc_update ar n rmin V3 W1 ev
     in (ev1, V3, W1))"

text \<open>One Givens rotation applied to row \<open>r\<close> of the matrix, and to all rows.\<close>

definition rotate_row :: "'r arith \<Rightarrow> nat \<Rightarrow> 'r GivensRotation \<Rightarrow> nat \<Rightarrow> 'r list \<Rightarrow> 'r list" where
  "rotate_row ar n givens r ev =
     (let j = index givens + n * r;
          q0 = ev ! j;
          q1 = ev ! (j + 1);
          prd0 = r_sub ar (r_mul ar (cs givens) q0) (r_mul ar (sn givens) q1);
          prd1 = r_add ar (r_mul ar (sn givens) q0) (r_mul ar (cs givens) q1)
      in ev[j := prd0, j + 1 := prd1])"

definition rotate :: "'r arith \<Rightarrow> nat \<Rightarrow> 'r GivensRotation \<Rightarrow> 'r list \<Rightarrow> 'r list" where
  "rotate ar n givens ev = fold (rotate_row ar n givens) [0..<n] ev"

text \<open>
  The column permutation. The loop state is \<open>(current, eigenvectors, mVisited,
  mEigenvectorMatrixType)\<close>; \<open>cycle_body\<close> is the body of the \<open>while\<close> loop and \<open>cycle_while\<close> the
  loop, which the source leaves only when the permutation leads back to \<open>start\<close>: it is a
  partial function, \<open>None\<close> when the loop runs forever.
\<close>

definition cycle_body ::
  "nat \<Rightarrow> int list \<Rightarrow> nat \<times> 'r list \<times> int list \<times> int \<Rightarrow> nat \<times> 'r list \<times> int list \<times> int" where
  "cycle_body n P = (\<lambda>(current, ev, vis, ty).
     let next = nat (P ! current)
     in (next,
         fold (\<lambda>j ev. ev[current + n * j := ev ! (next + n * j)]) [0..<n] ev,
         vis[current := 1],
         1 - ty))"

partial_function (option) cycle_while ::
  "nat \<Rightarrow> int list \<Rightarrow> nat \<Rightarrow> nat \<times> 'r list \<times> int list \<times> int \<Rightarrow>
   (nat \<times> 'r list \<times> int list \<times> int) option" where
  "cycle_while n P start st =
     (if P ! fst st \<noteq> int start
      then cycle_while n P start (cycle_body n P st)
      else Some st)"

declare cycle_while.simps [code]

definition permute_cycle ::
  "nat \<Rightarrow> int list \<Rightarrow> nat \<Rightarrow> 'r list \<times> int list \<times> int \<times> 'r list \<Rightarrow>
   ('r list \<times> int list \<times> int \<times> 'r list) option" where
  "permute_cycle n P i = (\<lambda>(ev, vis, ty, pv).
     if vis ! i = 0 \<and> P ! i \<noteq> int i
     then (let pv1 = fold (\<lambda>j pv. pv[j := ev ! (i + n * j)]) [0..<n] pv
           in case cycle_while n P i (i, ev, vis, ty) of
                None \<Rightarrow> None
              | Some (current, ev1, vis1, ty1) \<Rightarrow>
                  Some (fold (\<lambda>j ev. ev[current + n * j := pv1 ! j]) [0..<n] ev1,
                        vis1[current := 1], ty1, pv1))
     else Some (ev, vis, ty, pv))"

fun permute_columns ::
  "nat \<Rightarrow> int list \<Rightarrow> nat list \<Rightarrow> 'r list \<times> int list \<times> int \<times> 'r list \<Rightarrow>
   ('r list \<times> int list \<times> int \<times> 'r list) option" where
  "permute_columns n P [] st = Some st"
| "permute_columns n P (i # rest) st =
     (case permute_cycle n P i st of
        None \<Rightarrow> None
      | Some st' \<Rightarrow> permute_columns n P rest st')"

definition GetEigenvectors ::
  "'r arith \<Rightarrow> 'r solver \<Rightarrow> 'r list option \<Rightarrow> (fault + ('r solver \<times> 'r list option)) option" where
  "GetEigenvectors ar s eigenvectors =
     (let s0 = s\<lparr> mEigenvectorMatrixType := - 1 \<rparr>; n = mSize s
      in case eigenvectors of
           None \<Rightarrow> Some (Inr (s0, None))
         | Some out \<Rightarrow>
             if n > 0
             then (if length out < n * n then Some (Inl OutOfRange)
                   else (let ev0 = replicate (n * n) (r_zero ar) @ drop (n * n) out;
                             ev1 = fold (\<lambda>d ev. ev[d + n * d := r_one ar]) [0..<n] ev0;
                             (ev2, V, W) = fold (accumulate ar n (mMatrix s)) (rev [0..<n - 2])
                                             (ev1, mVVector s, mWVector s);
                             ev3 = fold (rotate ar n) (mGivens s) ev2;
                             s1 = s0\<lparr> mVVector := V, mWVector := W,
                                      mEigenvectorMatrixType := 1 - int (n mod 2) \<rparr>
                         in if mPermutation s ! 0 \<ge> 0
                            then (case permute_columns n (mPermutation s) [0..<n]
                                         (ev3, replicate (length (mVisited s)) 0,
                                          mEigenvectorMatrixType s1, mPVector s) of
                                    None \<Rightarrow> None
                                  | Some (ev4, vis, ty, pv) \<Rightarrow>
                                      Some (Inr (s1\<lparr> mVisited := vis, mEigenvectorMatrixType := ty,
                                                    mPVector := pv \<rparr>, Some ev4)))
                            else Some (Inr (s1, Some ev3))))
             else Some (Inr (s0, Some out)))"

section \<open>Notions used to state the properties\<close>

text \<open>
  The body of the outer loop of \<open>Solve\<close>, split into its test and its step: \<open>converged\<close> is
  the test \<open>imax == -1\<close> after the scan, \<open>qr_iteration\<close> the call of \<open>DoQRImplicitShift\<close> on the
  block the scan found. \<open>Solve_start\<close> is the solver when the outer loop is entered: the
  flag set to \<open>-1\<close>, the input copied and tridiagonalised, the rotation log cleared.
\<close>

definition converged :: "'r arith \<Rightarrow> 'r solver \<Rightarrow> bool" where
  "converged ar s =
     (snd (find_block ar (mDiagonal s) (mSuperdiagonal s) (rev [0..<mSize s - 1]) (- 1, - 1)) = - 1)"

definition qr_iteration :: "'r arith \<Rightarrow> 'r solver \<Rightarrow> 'r solver" where
  "qr_iteration ar s =
     (let (imin, imax) =
            find_block ar (mDiagonal s) (mSuperdiagonal s) (rev [0..<mSize s - 1]) (- 1, - 1)
      in DoQRImplicitShift ar (nat imin) (nat imax) s)"

definition Solve_start :: "'r arith \<Rightarrow> 'r solver \<Rightarrow> 'r list \<Rightarrow> 'r solver" where
  "Solve_start ar s input =
     (Tridiagonalize ar
        (s\<lparr> mEigenvectorMatrixType := - 1,
            mMatrix := take (mSize s * mSize s) input @ drop (mSize s * mSize s) (mMatrix s) \<rparr>))
      \<lparr> mGivens := [] \<rparr>"




text \<open>
  A caller that constructs a solver, solves and reads the eigenvalues and the eigenvectors;
  the error \<open>E = Q\<^sup>T A Q - D\<close> of the header comment, for row-major \<open>n \<times> n\<close> arrays \<open>A\<close> and
  \<open>Q\<close> and the array \<open>D\<close> of the diagonal; and the square of the Frobenius norm.
\<close>

definition decompose ::
  "'r arith \<Rightarrow> 'r sorter \<Rightarrow> int \<Rightarrow> 32 word \<Rightarrow> 'r list \<Rightarrow> int \<Rightarrow> (32 word \<times> 'r list \<times> 'r list) option" where
  "decompose ar srt sz maxIterations A sortType =
     (case Solve ar srt (SymmetricEigensolver ar sz maxIterations) A sortType of
        Inr (r, s) \<Rightarrow>
          (case GetEigenvalues s (Some (replicate (nat sz) (r_zero ar))) of
             Inr (Some D) \<Rightarrow>
               (case GetEigenvectors ar s (Some (replicate (nat sz * nat sz) (r_zero ar))) of
                  Some (Inr (s', Some Q)) \<Rightarrow> Some (r, D, Q)
                | _ \<Rightarrow> None)
           | _ \<Rightarrow> None)
      | Inl e \<Rightarrow> None)"

definition round_trip_error :: "nat \<Rightarrow> 'a::comm_ring_1 list \<Rightarrow> 'a list \<Rightarrow> 'a list \<Rightarrow> 'a list" where
  "round_trip_error n A Q D =
     concat (map (\<lambda>r. map (\<lambda>c.
         (\<Sum>k\<leftarrow>[0..<n]. \<Sum>l\<leftarrow>[0..<n]. Q ! (r + n * k) * A ! (l + n * k) * Q ! (c + n * l))
           - (if r = c then D ! r else 0)) [0..<n]) [0..<n])"

definition frobenius_sq :: "'a::comm_ring_1 list \<Rightarrow> 'a" where
  "frobenius_sq M = (\<Sum>x\<leftarrow>M. x * x)"

text \<open>
  A symmetric matrix whose first row has no entry off the diagonal, and the solver that
  \<open>Solve\<close> leaves for it.
\<close>

definition decoupled_3x3 :: "real list" where
  "decoupled_3x3 = [5, 0, 0, 0, 14, 24, 0, 24, 0]"

definition solved_3x3 :: "real solver" where
  "solved_3x3 = \<lparr> mSize = 3, mMaxIterations = 5, mMatrix = [5, 0, 0, 2, 14, 24, 0, 24, 0],
          mDiagonal = [5, 32, - 18], mSuperdiagonal = [0, 0],
          mGivens = [\<lparr> index = 1, cs = 4 / 5, sn = - (3 / 5) \<rparr>],
          mPermutation = [- 1, 0, 0], mVisited = [0, 0, 0], mEigenvectorMatrixType = 0,
          mPVector = [0, 0, 0], mVVector = [0, 0, 0], mWVector = [0, 0, 0] \<rparr>"

text \<open>
  The solver a caller holds after a call of \<open>Solve\<close>; a call that faults leaves it as it
  was.
\<close>

definition after_Solve :: "'r arith \<Rightarrow> 'r sorter \<Rightarrow> 'r solver \<Rightarrow> 'r list \<Rightarrow> int \<Rightarrow> 'r solver" where
  "after_Solve ar srt s input sortType =
     (case Solve ar srt s input sortType of Inr (r, s') \<Rightarrow> s' | Inl e \<Rightarrow> s)"

text \<open>
  Two sorting functions that can stand for \<open>std::sort\<close> in a concrete run. Both are
  insertion sorts: \<open>insertion_sort\<close> puts an item behind the items it does not compare less
  than, \<open>insertion_sort_front\<close> puts it in front of the items that do not compare less than
  it.
\<close>

fun insert_item :: "('a \<Rightarrow> 'a \<Rightarrow> bool) \<Rightarrow> 'a \<Rightarrow> 'a list \<Rightarrow> 'a list" where
  "insert_item cmp x [] = [x]"
| "insert_item cmp x (y # ys) = (if cmp x y then x # y # ys else y # insert_item cmp x ys)"

definition insertion_sort :: "('a \<Rightarrow> 'a \<Rightarrow> bool) \<Rightarrow> 'a list \<Rightarrow> 'a list" where
  "insertion_sort cmp xs = foldl (\<lambda>acc x. insert_item cmp x acc) [] xs"





















section \<open>The outer loop\<close>

declare QR_loop.simps [simp del]

lemma QR_loop_unfold:
  "QR_loop ar srt sortType maxIt j s =
     (if j < maxIt
      then (if converged ar s then (j, ComputePermutation ar srt sortType s)
            else QR_loop ar srt sortType maxIt (j + 1) (qr_iteration ar s))
      else (0xFFFFFFFF, s))"
  by (subst QR_loop.simps) (simp add: converged_def qr_iteration_def split: prod.splits)

lemma word32_succ: "(j::32 word) < m \<Longrightarrow> unat (j + 1) = Suc (unat j)"
proof -
  assume lt: "j < m"
  have "j + 1 \<noteq> 0"
  proof
    assume "j + 1 = 0"
    then have "j = - 1" by (simp add: eq_neg_iff_add_eq_0)
    with lt show False by simp
  qed
  then show ?thesis by (simp add: unatSuc add.commute)
qed

lemma QR_loop_result:
  "j \<le> maxIt \<Longrightarrow> QR_loop ar srt sortType maxIt j s = (r, s') \<Longrightarrow>
     (r = 0xFFFFFFFF \<and> s' = (qr_iteration ar ^^ (unat maxIt - unat j)) s \<and>
        (\<forall>k < unat maxIt - unat j. \<not> converged ar ((qr_iteration ar ^^ k) s)))
     \<or> (\<exists>k. unat r = unat j + k \<and> r < maxIt \<and>
           converged ar ((qr_iteration ar ^^ k) s) \<and>
           (\<forall>k' < k. \<not> converged ar ((qr_iteration ar ^^ k') s)) \<and>
           s' = ComputePermutation ar srt sortType ((qr_iteration ar ^^ k) s))"
proof (induction ar srt sortType maxIt j s rule: QR_loop.induct)
  case (1 ar srt sortType maxIt j s)
  show ?case
  proof (cases "j < maxIt")
    case False
    with "1.prems" have "j = maxIt" by simp
    with "1.prems" QR_loop_unfold[of ar srt sortType maxIt j s] show ?thesis by simp
  next
    case lt: True
    show ?thesis
    proof (cases "converged ar s")
      case True
      with lt "1.prems" QR_loop_unfold[of ar srt sortType maxIt j s]
      have "r = j" "s' = ComputePermutation ar srt sortType s"
        by simp_all
      with lt True show ?thesis by auto
    next
      case nc: False
      obtain imin imax where fb:
        "find_block ar (mDiagonal s) (mSuperdiagonal s) (rev [0..<mSize s - 1]) (- 1, - 1) = (imin, imax)"
        by (cases "find_block ar (mDiagonal s) (mSuperdiagonal s) (rev [0..<mSize s - 1]) (- 1, - 1)")
      from nc fb have ne: "imax \<noteq> - 1" by (simp add: converged_def)
      have qi: "qr_iteration ar s = DoQRImplicitShift ar (nat imin) (nat imax) s"
        using fb by (simp add: qr_iteration_def)
      have suc: "unat (j + 1) = Suc (unat j)" using lt by (rule word32_succ)
      from lt have jlt: "unat j < unat maxIt" by (simp add: word_less_nat_alt)
      have le: "j + 1 \<le> maxIt" using suc jlt by (simp add: word_le_nat_alt)
      have rec: "QR_loop ar srt sortType maxIt (j + 1) (qr_iteration ar s) = (r, s')"
        using "1.prems"(2) lt nc QR_loop_unfold[of ar srt sortType maxIt j s] by simp
      have IH: "(r = 0xFFFFFFFF \<and> s' = (qr_iteration ar ^^ (unat maxIt - unat (j + 1))) (qr_iteration ar s) \<and>
        (\<forall>k < unat maxIt - unat (j + 1). \<not> converged ar ((qr_iteration ar ^^ k) (qr_iteration ar s))))
     \<or> (\<exists>k. unat r = unat (j + 1) + k \<and> r < maxIt \<and>
           converged ar ((qr_iteration ar ^^ k) (qr_iteration ar s)) \<and>
           (\<forall>k' < k. \<not> converged ar ((qr_iteration ar ^^ k') (qr_iteration ar s))) \<and>
           s' = ComputePermutation ar srt sortType ((qr_iteration ar ^^ k) (qr_iteration ar s)))"
        using "1.IH"[OF lt fb[symmetric] refl ne le] rec qi by simp
      have step: "\<And>k. (qr_iteration ar ^^ k) (qr_iteration ar s) = (qr_iteration ar ^^ Suc k) s"
        by (simp add: funpow_swap1)
      have sub: "unat maxIt - unat j = Suc (unat maxIt - unat (j + 1))"
        using suc jlt by simp
      from IH show ?thesis
      proof
        assume A: "r = 0xFFFFFFFF \<and> s' = (qr_iteration ar ^^ (unat maxIt - unat (j + 1))) (qr_iteration ar s) \<and>
        (\<forall>k < unat maxIt - unat (j + 1). \<not> converged ar ((qr_iteration ar ^^ k) (qr_iteration ar s)))"
        have "\<forall>k < unat maxIt - unat j. \<not> converged ar ((qr_iteration ar ^^ k) s)"
        proof (intro allI impI)
          fix k assume k: "k < unat maxIt - unat j"
          show "\<not> converged ar ((qr_iteration ar ^^ k) s)"
          proof (cases k)
            case 0 with nc show ?thesis by simp
          next
            case (Suc k')
            with k sub have "k' < unat maxIt - unat (j + 1)" by simp
            with A have "\<not> converged ar ((qr_iteration ar ^^ k') (qr_iteration ar s))" by blast
            then show ?thesis unfolding Suc step .
          qed
        qed
        moreover have "s' = (qr_iteration ar ^^ (unat maxIt - unat j)) s"
          using A unfolding sub step by simp
        ultimately show ?thesis using A by blast
      next
        assume "\<exists>k. unat r = unat (j + 1) + k \<and> r < maxIt \<and>
           converged ar ((qr_iteration ar ^^ k) (qr_iteration ar s)) \<and>
           (\<forall>k' < k. \<not> converged ar ((qr_iteration ar ^^ k') (qr_iteration ar s))) \<and>
           s' = ComputePermutation ar srt sortType ((qr_iteration ar ^^ k) (qr_iteration ar s))"
        then obtain k where B: "unat r = unat (j + 1) + k" "r < maxIt"
           "converged ar ((qr_iteration ar ^^ k) (qr_iteration ar s))"
           "\<forall>k' < k. \<not> converged ar ((qr_iteration ar ^^ k') (qr_iteration ar s))"
           "s' = ComputePermutation ar srt sortType ((qr_iteration ar ^^ k) (qr_iteration ar s))"
          by blast
        have "\<forall>k' < Suc k. \<not> converged ar ((qr_iteration ar ^^ k') s)"
        proof (intro allI impI)
          fix k' assume k: "k' < Suc k"
          show "\<not> converged ar ((qr_iteration ar ^^ k') s)"
          proof (cases k')
            case 0 with nc show ?thesis by simp
          next
            case (Suc k'')
            with k have "k'' < k" by simp
            with B(4) have "\<not> converged ar ((qr_iteration ar ^^ k'') (qr_iteration ar s))" by blast
            then show ?thesis unfolding Suc step .
          qed
        qed
        moreover have "unat r = unat j + Suc k" using B(1) suc by simp
        moreover have "converged ar ((qr_iteration ar ^^ Suc k) s)" using B(3) unfolding step .
        moreover have "s' = ComputePermutation ar srt sortType ((qr_iteration ar ^^ Suc k) s)"
          using B(5) unfolding step .
        ultimately show ?thesis using B(2) by blast
      qed
    qed
  qed
qed


subsection \<open>Fields that the phases of Solve leave alone\<close>

lemma hh_step_frame:
  "mSize (hh_step ar i s) = mSize s"
  "mMaxIterations (hh_step ar i s) = mMaxIterations s"
  "mPermutation (hh_step ar i s) = mPermutation s"
  "mEigenvectorMatrixType (hh_step ar i s) = mEigenvectorMatrixType s"
  "mGivens (hh_step ar i s) = mGivens s"
  "mVisited (hh_step ar i s) = mVisited s"
  by (simp_all add: hh_step_def Let_def split: prod.splits)

lemma fold_hh_step_frame:
  "mSize (fold (hh_step ar) xs s) = mSize s"
  "mMaxIterations (fold (hh_step ar) xs s) = mMaxIterations s"
  "mPermutation (fold (hh_step ar) xs s) = mPermutation s"
  "mEigenvectorMatrixType (fold (hh_step ar) xs s) = mEigenvectorMatrixType s"
  "mGivens (fold (hh_step ar) xs s) = mGivens s"
  "mVisited (fold (hh_step ar) xs s) = mVisited s"
  by (induction xs arbitrary: s; simp add: hh_step_frame)+

lemma Tridiagonalize_frame:
  "mSize (Tridiagonalize ar s) = mSize s"
  "mMaxIterations (Tridiagonalize ar s) = mMaxIterations s"
  "mPermutation (Tridiagonalize ar s) = mPermutation s"
  "mEigenvectorMatrixType (Tridiagonalize ar s) = mEigenvectorMatrixType s"
  "mGivens (Tridiagonalize ar s) = mGivens s"
  "mVisited (Tridiagonalize ar s) = mVisited s"
  by (simp_all add: Tridiagonalize_def Let_def fold_hh_step_frame split: prod.splits)

lemma DoQRImplicitShift_frame:
  "mSize (DoQRImplicitShift ar imin imax s) = mSize s"
  "mMaxIterations (DoQRImplicitShift ar imin imax s) = mMaxIterations s"
  "mPermutation (DoQRImplicitShift ar imin imax s) = mPermutation s"
  "mEigenvectorMatrixType (DoQRImplicitShift ar imin imax s) = mEigenvectorMatrixType s"
  "mMatrix (DoQRImplicitShift ar imin imax s) = mMatrix s"
  "mVisited (DoQRImplicitShift ar imin imax s) = mVisited s"
  "mPVector (DoQRImplicitShift ar imin imax s) = mPVector s"
  "mVVector (DoQRImplicitShift ar imin imax s) = mVVector s"
  "mWVector (DoQRImplicitShift ar imin imax s) = mWVector s"
  by (simp_all add: DoQRImplicitShift_def Let_def split: prod.splits)

lemma qr_iteration_frame:
  "mSize (qr_iteration ar s) = mSize s"
  "mMaxIterations (qr_iteration ar s) = mMaxIterations s"
  "mPermutation (qr_iteration ar s) = mPermutation s"
  "mEigenvectorMatrixType (qr_iteration ar s) = mEigenvectorMatrixType s"
  "mMatrix (qr_iteration ar s) = mMatrix s"
  "mVisited (qr_iteration ar s) = mVisited s"
  "mPVector (qr_iteration ar s) = mPVector s"
  "mVVector (qr_iteration ar s) = mVVector s"
  "mWVector (qr_iteration ar s) = mWVector s"
  by (simp_all add: qr_iteration_def DoQRImplicitShift_frame split: prod.splits)

lemma qr_iterations_frame:
  "mSize ((qr_iteration ar ^^ k) s) = mSize s"
  "mMaxIterations ((qr_iteration ar ^^ k) s) = mMaxIterations s"
  "mPermutation ((qr_iteration ar ^^ k) s) = mPermutation s"
  "mEigenvectorMatrixType ((qr_iteration ar ^^ k) s) = mEigenvectorMatrixType s"
  "mMatrix ((qr_iteration ar ^^ k) s) = mMatrix s"
  "mVisited ((qr_iteration ar ^^ k) s) = mVisited s"
  "mPVector ((qr_iteration ar ^^ k) s) = mPVector s"
  "mVVector ((qr_iteration ar ^^ k) s) = mVVector s"
  "mWVector ((qr_iteration ar ^^ k) s) = mWVector s"
  by (induction k; simp add: qr_iteration_frame)+

lemma Solve_start_frame:
  "mSize (Solve_start ar s input) = mSize s"
  "mMaxIterations (Solve_start ar s input) = mMaxIterations s"
  "mPermutation (Solve_start ar s input) = mPermutation s"
  "mEigenvectorMatrixType (Solve_start ar s input) = - 1"
  "mGivens (Solve_start ar s input) = []"
  "mVisited (Solve_start ar s input) = mVisited s"
  by (simp_all add: Solve_start_def Tridiagonalize_frame)

lemma Solve_unfold:
  "Solve ar srt s input sortType =
     (if mSize s > 0
      then (if length input < mSize s * mSize s then Inl OutOfRange
            else Inr (QR_loop ar srt sortType (mMaxIterations s) 0 (Solve_start ar s input)))
      else Inr (0, s\<lparr> mEigenvectorMatrixType := - 1 \<rparr>))"
  by (simp add: Solve_def Solve_start_def Let_def Tridiagonalize_frame)

lemma Solve_cases:
  assumes "Solve ar srt s input sortType = Inr (r, s')" and "mSize s > 0"
  shows "(r = 0xFFFFFFFF \<and> s' = (qr_iteration ar ^^ unat (mMaxIterations s)) (Solve_start ar s input) \<and>
          (\<forall>k < unat (mMaxIterations s). \<not> converged ar ((qr_iteration ar ^^ k) (Solve_start ar s input))))
       \<or> (r < mMaxIterations s \<and>
           converged ar ((qr_iteration ar ^^ unat r) (Solve_start ar s input)) \<and>
           (\<forall>k < unat r. \<not> converged ar ((qr_iteration ar ^^ k) (Solve_start ar s input))) \<and>
           s' = ComputePermutation ar srt sortType ((qr_iteration ar ^^ unat r) (Solve_start ar s input)))"
proof -
  from assms have "QR_loop ar srt sortType (mMaxIterations s) 0 (Solve_start ar s input) = (r, s')"
    by (simp add: Solve_unfold split: if_splits)
  from QR_loop_result[OF _ this] show ?thesis by auto
qed

lemma word32_lt_max: "(r::32 word) < m \<Longrightarrow> r \<noteq> 0xFFFFFFFF"
proof
  assume "r < m" "r = 0xFFFFFFFF"
  moreover have "(0xFFFFFFFF :: 32 word) = - 1" by simp
  ultimately have "(- 1 :: 32 word) < m" by metis
  then show False by simp
qed

subsection \<open>Concrete runs in exact arithmetic\<close>

lemmas run_defs = SymmetricEigensolver_def Solve_def Tridiagonalize_def exact_def Let_def
  DoQRImplicitShift_def qr_step_def GetSinCos_def deflated_def ComputePermutation_def
  insertion_sort_def real_sqrt_divide upt_conv_Cons QR_loop.simps

lemma run_2x2_one_iteration:
  "\<exists>s'. Solve exact insertion_sort (SymmetricEigensolver exact 2 5) [14, 24, 24, 0] 1 = Inr (1, s')"
  by (simp add: run_defs)

lemma run_2x2_budget_exhausted:
  "\<exists>s'. Solve exact insertion_sort (SymmetricEigensolver exact 2 1) [14, 24, 24, 0] 1 = Inr (0xFFFFFFFF, s')"
  by (simp add: run_defs)

section \<open>The buffers keep their sizes\<close>

lemma length_fold:
  "(\<And>x l. length (f x l) = length l) \<Longrightarrow> length (fold f xs l) = length l"
  by (induction xs arbitrary: l) simp_all
























section \<open>The value returned by Solve\<close>

text \<open>
  C2. \<open>Solve\<close> on a solver that was constructed inert (\<open>size \<le> 1\<close> or \<open>maxIterations = 0\<close>)
  returns \<open>0\<close> and leaves the solver as it was. On any other solver, given an input of
  \<open>mSize * mSize\<close> elements, it returns: when some number \<open>k < maxIterations\<close> of outer
  iterations leads to a converged tridiagonal matrix, the least such number, which is
  less than \<open>maxIterations\<close> and is not the sentinel; and the sentinel \<open>0xFFFFFFFF\<close> when no
  \<open>k < maxIterations\<close> does.
\<close>

theorem Solve_return_value:
  "(sz \<le> 1 \<or> maxIterations = 0 \<longrightarrow>
      Solve ar srt (SymmetricEigensolver ar sz maxIterations) input sortType
        = Inr (0, SymmetricEigensolver ar sz maxIterations))
   \<and> (mSize s > 0 \<and> mSize s * mSize s \<le> length input \<longrightarrow>
        (\<exists>r s'. Solve ar srt s input sortType = Inr (r, s') \<and>
           (if \<exists>k < unat (mMaxIterations s).
                 converged ar ((qr_iteration ar ^^ k) (Solve_start ar s input))
            then r < mMaxIterations s \<and> r \<noteq> 0xFFFFFFFF \<and>
                 converged ar ((qr_iteration ar ^^ unat r) (Solve_start ar s input)) \<and>
                 (\<forall>k < unat r. \<not> converged ar ((qr_iteration ar ^^ k) (Solve_start ar s input)))
            else r = 0xFFFFFFFF)))"
proof (intro conjI impI)
  assume "sz \<le> 1 \<or> maxIterations = 0"
  then show "Solve ar srt (SymmetricEigensolver ar sz maxIterations) input sortType
        = Inr (0, SymmetricEigensolver ar sz maxIterations)"
    by (auto simp: Solve_def SymmetricEigensolver_def)
next
  assume a: "mSize s > 0 \<and> mSize s * mSize s \<le> length input"
  then obtain r s' where e: "Solve ar srt s input sortType = Inr (r, s')"
    by (cases "QR_loop ar srt sortType (mMaxIterations s) 0 (Solve_start ar s input)")
       (simp add: Solve_unfold)
  let ?C = "\<lambda>k. converged ar ((qr_iteration ar ^^ k) (Solve_start ar s input))"
  from a have pos: "mSize s > 0" by simp
  from Solve_cases[OF e pos]
  have c: "(r = 0xFFFFFFFF \<and> (\<forall>k < unat (mMaxIterations s). \<not> ?C k))
       \<or> (r < mMaxIterations s \<and> ?C (unat r) \<and> (\<forall>k < unat r. \<not> ?C k))"
    by auto
  have "if \<exists>k < unat (mMaxIterations s). ?C k
        then r < mMaxIterations s \<and> r \<noteq> 0xFFFFFFFF \<and> ?C (unat r) \<and> (\<forall>k < unat r. \<not> ?C k)
        else r = 0xFFFFFFFF"
  proof (cases "\<exists>k < unat (mMaxIterations s). ?C k")
    case True
    with c have "r < mMaxIterations s \<and> ?C (unat r) \<and> (\<forall>k < unat r. \<not> ?C k)" by blast
    moreover from this have "r \<noteq> 0xFFFFFFFF" using word32_lt_max by blast
    ultimately show ?thesis using True by simp
  next
    case False
    have "r = 0xFFFFFFFF"
    proof (rule ccontr)
      assume "r \<noteq> 0xFFFFFFFF"
      with c have "r < mMaxIterations s" "?C (unat r)" by blast+
      then have "\<exists>k < unat (mMaxIterations s). ?C k"
        by (auto simp: word_less_nat_alt)
      with False show False by blast
    qed
    with False show ?thesis by simp
  qed
  with e show "\<exists>r s'. Solve ar srt s input sortType = Inr (r, s') \<and>
           (if \<exists>k < unat (mMaxIterations s). ?C k
            then r < mMaxIterations s \<and> r \<noteq> 0xFFFFFFFF \<and> ?C (unat r) \<and> (\<forall>k < unat r. \<not> ?C k)
            else r = 0xFFFFFFFF)"
    by blast
qed

theorem Solve_return_value_witness:
  "((1::int) \<le> 1 \<or> (5::32 word) = 0)
   \<and> Solve exact insertion_sort (SymmetricEigensolver exact 1 5) [] 0
       = Inr (0, SymmetricEigensolver exact 1 5)
   \<and> mSize (SymmetricEigensolver exact 2 5) > 0
   \<and> mSize (SymmetricEigensolver exact 2 5) * mSize (SymmetricEigensolver exact 2 5)
       \<le> length [14, 24, 24, 0 :: real]
   \<and> (\<exists>r s'. Solve exact insertion_sort (SymmetricEigensolver exact 2 5) [14, 24, 24, 0] 1 = Inr (r, s')
         \<and> r = 1 \<and> r < mMaxIterations (SymmetricEigensolver exact 2 5))"
proof -
  have h1: "(1::int) \<le> 1 \<or> (5::32 word) = 0" by simp
  have h2: "mSize (SymmetricEigensolver exact 2 5) > 0 \<and>
     mSize (SymmetricEigensolver exact 2 5) * mSize (SymmetricEigensolver exact 2 5)
       \<le> length [14, 24, 24, 0 :: real]"
    by (simp add: SymmetricEigensolver_def)
  note inst = Solve_return_value[where sz = 1 and maxIterations = 5 and ar = exact
      and srt = insertion_sort and input = "[14, 24, 24, 0]" and sortType = 1
      and s = "SymmetricEigensolver exact 2 5"]
  from inst h1 have a: "Solve exact insertion_sort (SymmetricEigensolver exact 1 5) [14, 24, 24, 0] 1
       = Inr (0, SymmetricEigensolver exact 1 5)" by blast
  have a': "Solve exact insertion_sort (SymmetricEigensolver exact 1 5) [] 0
       = Inr (0, SymmetricEigensolver exact 1 5)"
    using Solve_return_value[where sz = 1 and maxIterations = 5 and ar = exact
      and srt = insertion_sort and input = "[]" and sortType = 0] h1 by blast
  from run_2x2_one_iteration obtain s1 where
    e1: "Solve exact insertion_sort (SymmetricEigensolver exact 2 5) [14, 24, 24, 0] 1 = Inr (1, s1)"
    by blast
  have "(1 :: 32 word) < mMaxIterations (SymmetricEigensolver exact 2 5)"
    by (simp add: SymmetricEigensolver_def)
  with e1 h1 h2 a' show ?thesis by blast
qed

section \<open>The matrix type flag after Solve\<close>

text \<open>
  C10. Whatever \<open>sortType\<close> is, after \<open>Solve\<close> the flag read by \<open>GetEigenvectorMatrixType\<close> is
  \<open>1 - (mSize mod 2)\<close> when the solver is not inert and the call converged, and \<open>-1\<close> when the
  call returned the sentinel \<open>0xFFFFFFFF\<close> or the solver is inert; no call of
  \<open>GetEigenvectors\<close> is involved.
\<close>

theorem Solve_sets_matrix_type:
  "Solve ar srt s input sortType = Inr (r, s') \<Longrightarrow>
     GetEigenvectorMatrixType s' =
       (if mSize s > 0 \<and> r \<noteq> 0xFFFFFFFF then 1 - int (mSize s mod 2) else - 1)"
proof (cases "mSize s > 0")
  case False
  assume "Solve ar srt s input sortType = Inr (r, s')"
  with False show ?thesis
    by (auto simp: Solve_unfold GetEigenvectorMatrixType_def)
next
  case True
  assume e: "Solve ar srt s input sortType = Inr (r, s')"
  from Solve_cases[OF e True] show ?thesis
  proof
    assume "r = 0xFFFFFFFF \<and> s' = (qr_iteration ar ^^ unat (mMaxIterations s)) (Solve_start ar s input) \<and>
          (\<forall>k < unat (mMaxIterations s). \<not> converged ar ((qr_iteration ar ^^ k) (Solve_start ar s input)))"
    then show ?thesis
      by (simp add: GetEigenvectorMatrixType_def qr_iterations_frame Solve_start_frame)
  next
    assume b: "r < mMaxIterations s \<and>
           converged ar ((qr_iteration ar ^^ unat r) (Solve_start ar s input)) \<and>
           (\<forall>k < unat r. \<not> converged ar ((qr_iteration ar ^^ k) (Solve_start ar s input))) \<and>
           s' = ComputePermutation ar srt sortType ((qr_iteration ar ^^ unat r) (Solve_start ar s input))"
    then have "r \<noteq> 0xFFFFFFFF" using word32_lt_max by blast
    moreover have "mEigenvectorMatrixType s' = 1 - int (mSize s mod 2)"
      using b by (simp add: ComputePermutation_def Let_def qr_iterations_frame Solve_start_frame)
    ultimately show ?thesis using True by (simp add: GetEigenvectorMatrixType_def)
  qed
qed

theorem Solve_sets_matrix_type_witness:
  "(\<exists>s'. Solve exact insertion_sort (SymmetricEigensolver exact 2 5) [14, 24, 24, 0] 1 = Inr (1, s')
        \<and> GetEigenvectorMatrixType s' = 1)
   \<and> (\<exists>s'. Solve exact insertion_sort (SymmetricEigensolver exact 2 1) [14, 24, 24, 0] 1
               = Inr (0xFFFFFFFF, s')
        \<and> GetEigenvectorMatrixType s' = - 1)"
proof -
  from run_2x2_one_iteration obtain s1 where
    e1: "Solve exact insertion_sort (SymmetricEigensolver exact 2 5) [14, 24, 24, 0] 1 = Inr (1, s1)"
    by blast
  from run_2x2_budget_exhausted obtain s2 where
    e2: "Solve exact insertion_sort (SymmetricEigensolver exact 2 1) [14, 24, 24, 0] 1
           = Inr (0xFFFFFFFF, s2)"
    by blast
  have "GetEigenvectorMatrixType s1 = 1"
    using Solve_sets_matrix_type[OF e1] by (simp add: SymmetricEigensolver_def)
  moreover have "GetEigenvectorMatrixType s2 = - 1"
    using Solve_sets_matrix_type[OF e2] by (simp add: SymmetricEigensolver_def)
  ultimately show ?thesis using e1 e2 by blast
qed

section \<open>One outer iteration\<close>

subsection \<open>What the scan finds\<close>




lemma replicate_2: "replicate 2 x = [x, x]"
  by (simp add: numeral_2_eq_2)



subsection \<open>The step\<close>




section \<open>Range and null checks of the getters\<close>

lemma GetEigenvector_out_of_range:
  assumes "\<not> (0 \<le> c \<and> c < int (mSize s))"
  shows "GetEigenvector ar s c eigenvector = Inr (s, eigenvector)"
  unfolding GetEigenvector_def using assms by (rule if_not_P)

lemma GetEigenvalue_inert:
  "mSize s = 0 \<Longrightarrow> GetEigenvalue ar s c = Inr (r_max ar)"
  by (simp add: GetEigenvalue_def)

lemma GetEigenvalue_out_of_range:
  "mSize s > 0 \<Longrightarrow> length (mPermutation s) = mSize s \<Longrightarrow> length (mDiagonal s) = mSize s \<Longrightarrow>
   \<not> (0 \<le> c \<and> c < int (mSize s)) \<Longrightarrow> GetEigenvalue ar s c = Inl OutOfRange"
  by (auto simp: GetEigenvalue_def read_at_def)

lemma solved_diag_2x2:
  "after_Solve exact insertion_sort (SymmetricEigensolver exact 2 5) [1, 0, 0, 2] 0 =
     \<lparr> mSize = 2, mMaxIterations = 5, mMatrix = [1, 0, 0, 2], mDiagonal = [1, 2],
       mSuperdiagonal = [0], mGivens = [], mPermutation = [- 1, 0], mVisited = [0, 0],
       mEigenvectorMatrixType = 1, mPVector = [0, 0], mVVector = [0, 0], mWVector = [0, 0] \<rparr>"
  by (simp add: after_Solve_def run_defs replicate_2)

text \<open>
  C6. \<open>GetEigenvector\<close> tests \<open>0 <= c && c < mSize\<close> and does nothing for any other \<open>c\<close>
  (\<open>GetEigenvector_out_of_range\<close>). \<open>GetEigenvalue\<close> tests only \<open>mSize > 0\<close>: it returns the
  sentinel on an inert solver (\<open>GetEigenvalue_inert\<close>), and on any other solver it indexes
  its arrays with \<open>c\<close> unchecked (\<open>GetEigenvalue_out_of_range\<close>). The run below is a solver of
  size 2 after a converged \<open>Solve\<close>, asked for the eigenvalue of column 2: the read is out
  of range.
\<close>

theorem GetEigenvalue_reads_out_of_range:
  "GetEigenvalue exact
     (after_Solve exact insertion_sort (SymmetricEigensolver exact 2 5) [1, 0, 0, 2] 0) 2
   = Inl OutOfRange"
  by (simp add: solved_diag_2x2 GetEigenvalue_def read_at_def)

text \<open>
  The null tests. \<open>GetEigenvalues\<close> and \<open>GetEigenvectors\<close> test the pointer before they write:
  with a null pointer the first returns at once and the second returns after it has set
  the matrix type flag to \<open>-1\<close>, as its comment says. \<open>GetEigenvector\<close> tests the column index
  only: with an index outside \<open>[0, mSize)\<close> it does nothing (\<open>GetEigenvector_out_of_range\<close>),
  with an index inside it calls \<open>memset\<close> on the pointer it was given.
\<close>

lemma GetEigenvalues_null: "GetEigenvalues s None = Inr None"
  by (simp add: GetEigenvalues_def)

lemma GetEigenvectors_null:
  "GetEigenvectors ar s None = Some (Inr (s\<lparr> mEigenvectorMatrixType := - 1 \<rparr>, None))"
  by (simp add: GetEigenvectors_def)

lemma GetEigenvector_null:
  "0 \<le> c \<Longrightarrow> c < int (mSize s) \<Longrightarrow> GetEigenvector ar s c None = Inl NullPointer"
  by (simp add: GetEigenvector_def)

text \<open>
  C7. The run below is a solver of size 2 after a converged \<open>Solve\<close>, asked for eigenvector
  \<open>0\<close> with a null pointer: \<open>GetEigenvector\<close> writes through the null pointer, where
  \<open>GetEigenvalues\<close> and \<open>GetEigenvectors\<close>, given a null pointer on the same solver, return
  without writing to any array.
\<close>

theorem GetEigenvector_writes_through_null:
  "GetEigenvector exact
     (after_Solve exact insertion_sort (SymmetricEigensolver exact 2 5) [1, 0, 0, 2] 0) 0 None
   = Inl NullPointer
   \<and> GetEigenvalues
       (after_Solve exact insertion_sort (SymmetricEigensolver exact 2 5) [1, 0, 0, 2] 0) None
     = Inr None
   \<and> GetEigenvectors exact
       (after_Solve exact insertion_sort (SymmetricEigensolver exact 2 5) [1, 0, 0, 2] 0) None
     = Some (Inr ((after_Solve exact insertion_sort (SymmetricEigensolver exact 2 5) [1, 0, 0, 2] 0)
                    \<lparr> mEigenvectorMatrixType := - 1 \<rparr>, None))"
  by (simp add: solved_diag_2x2 GetEigenvectors_def GetEigenvector_def GetEigenvalues_def)

section \<open>The matrix type flag after GetEigenvectors\<close>









section \<open>The round trip\<close>

lemma solve_3x3:
  "Solve exact insertion_sort (SymmetricEigensolver exact 3 5) decoupled_3x3 0 = Inr (1, solved_3x3)"
  by (simp add: run_defs hh_step_def hh_read_def hh_normalize_def hh_pvector_def hh_update_def
        numeral_3_eq_3 solved_3x3_def decoupled_3x3_def)

lemma eigenvalues_3x3:
  "GetEigenvalues solved_3x3 (Some [0, 0, 0]) = Inr (Some [5, 32, - 18])"
  by (simp add: GetEigenvalues_def solved_3x3_def)

lemma eigenvectors_3x3:
  "GetEigenvectors exact solved_3x3 (Some [0, 0, 0, 0, 0, 0, 0, 0, 0])
    = Some (Inr (solved_3x3\<lparr> mVVector := [0, 1, 0], mWVector := [0, 2, 0] \<rparr>,
        Some [1, 0, 0, 0, - (4 / 5), 3 / 5, 0, 3 / 5, 4 / 5]))"
  by (simp add: GetEigenvectors_def accumulate_def acc_vvector_def acc_wvector_def acc_update_def
        rotate_def rotate_row_def exact_def Let_def upt_conv_Cons
        numeral_3_eq_3 solved_3x3_def)

text \<open>
  C1. The input \<open>decoupled_3x3\<close> is symmetric and \<open>Solve\<close> converges on it after one
  iteration, with the eigenvalues \<open>5, 32, -18\<close>. Row 0 has no entry off the diagonal, so in
  \<open>Tridiagonalize\<close> the vector read for \<open>i = 0\<close> is zero, the test \<open>length > 0\<close> fails and the
  matrix is left as it is; but \<open>2 / vdv = 2\<close> is stored as the scale of the reflection, and
  \<open>GetEigenvectors\<close> takes the stored reflection to have the component \<open>v[1] = 1\<close>. The \<open>Q\<close> it
  returns therefore has row 1 negated, and \<open>E = Q\<^sup>T A Q - D\<close> is far from zero: the square of
  its Frobenius norm is \<open>4608\<close>, that of \<open>A\<close> is \<open>1373\<close>. The arithmetic is exact here, so
  no rounding is involved.
\<close>

theorem round_trip_fails:
  "decompose exact insertion_sort 3 5 decoupled_3x3 0
     = Some (1, [5, 32, - 18], [1, 0, 0, 0, - (4 / 5), 3 / 5, 0, 3 / 5, 4 / 5])
   \<and> round_trip_error 3 decoupled_3x3
         [1, 0, 0, 0, - (4 / 5), 3 / 5, 0, 3 / 5, 4 / 5] [5, 32, - 18]
       = [0, 0, 0, 0, - (1152 / 25), - (336 / 25), 0, - (336 / 25), 1152 / 25]
   \<and> frobenius_sq [0, 0, 0, 0, - (1152 / 25), - (336 / 25), 0, - (336 / 25), 1152 / 25 :: real] = 4608
   \<and> frobenius_sq decoupled_3x3 = 1373"
proof (intro conjI)
  have z: "replicate (nat 3) (r_zero exact) = [0, 0, 0]"
    "replicate (nat 3 * nat 3) (r_zero exact) = [0, 0, 0, 0, 0, 0, 0, 0, 0]"
    by (simp_all add: exact_def eval_nat_numeral)
  show "decompose exact insertion_sort 3 5 decoupled_3x3 0
     = Some (1, [5, 32, - 18], [1, 0, 0, 0, - (4 / 5), 3 / 5, 0, 3 / 5, 4 / 5])"
    by (simp only: decompose_def solve_3x3 z eigenvalues_3x3 eigenvectors_3x3
          sum.case prod.case option.case)
  show "round_trip_error 3 decoupled_3x3
         [1, 0, 0, 0, - (4 / 5), 3 / 5, 0, 3 / 5, 4 / 5] [5, 32, - 18]
       = [0, 0, 0, 0, - (1152 / 25), - (336 / 25), 0, - (336 / 25), 1152 / 25]"
    by (simp add: round_trip_error_def upt_conv_Cons numeral_3_eq_3 decoupled_3x3_def)
  show "frobenius_sq [0, 0, 0, 0, - (1152 / 25), - (336 / 25), 0, - (336 / 25), 1152 / 25 :: real] = 4608"
    by (simp add: frobenius_sq_def)
  show "frobenius_sq decoupled_3x3 = 1373"
    by (simp add: frobenius_sq_def decoupled_3x3_def)
qed

section \<open>Sorted eigenvalues\<close>

subsection \<open>The two insertion sorts keep the promise of std::sort\<close>
















subsection \<open>The permutation written by ComputePermutation\<close>












section \<open>What Solve resets\<close>














section \<open>One eigenvector against the matrix of all eigenvectors\<close>

subsection \<open>Cells of a matrix stored by rows\<close>




subsection \<open>A rotation of the matrix against a rotation of the vector\<close>
















subsection \<open>The vector v and the vector w of a reflection\<close>






lemma length_fold_cell: "length (fold (\<lambda>a l. l[idx a := h a (l ! idx a)]) xs l) = length l"
  by (rule length_fold) simp







subsection \<open>One reflection of a vector\<close>




subsection \<open>All reflections\<close>


subsection \<open>The identity matrix and a unit vector\<close>





subsection \<open>One column of the accumulated matrix\<close>





subsection \<open>The rotations that Solve records\<close>










subsection \<open>Copying a column\<close>



















section \<open>The matrix type flag after the column permutation\<close>

subsection \<open>Cycles of a permutation\<close>










subsection \<open>The flag through the permutation loop\<close>

















end
